theory Spec2Isabelle
  imports Main
begin

section \<open>Python strings and integer rendering\<close>

text \<open>
  Text built by the capability checks is ASCII apart from the opaque feature and
  implementation names, so it is modelled as \<open>string\<close>.  \<open>str_int\<close> is Python's
  \<open>str\<close> on an \<open>int\<close>: decimal digits, most significant first, with a leading minus
  sign for negative numbers.
\<close>

definition digit_char :: "nat \<Rightarrow> char" where
  "digit_char d = ''0123456789'' ! d"

fun str_nat :: "nat \<Rightarrow> string" where
  "str_nat n = (if n < 10 then [digit_char n] else str_nat (n div 10) @ [digit_char (n mod 10)])"

declare str_nat.simps [simp del]

definition str_int :: "int \<Rightarrow> string" where
  "str_int i = (if i < 0 then CHR ''-'' # str_nat (nat (- i)) else str_nat (nat i))"

text \<open>Python's \<open>sub in s\<close> on strings: \<open>sub\<close> occurs in \<open>s\<close> as a contiguous run.\<close>

definition startswith :: "'a list \<Rightarrow> 'a list \<Rightarrow> bool" where
  "startswith s p = (take (length p) s = p)"

fun contains :: "'a list \<Rightarrow> 'a list \<Rightarrow> bool" where
  "contains [] sub = (sub = [])"
| "contains (c # cs) sub = (startswith (c # cs) sub \<or> contains cs sub)"

section \<open>pq/misc.py: version_pretty\<close>

text \<open>
  \<open>divmod\<close> on Python integers is floor division with a remainder of the divisor's sign,
  which is what \<open>div\<close> and \<open>mod\<close> are on \<open>int\<close>.
\<close>

definition version_pretty :: "int \<Rightarrow> string" where
  "version_pretty version =
     (let patch = version mod 100;
          version' = version div 100;
          major = version' div 100;
          minor = version' mod 100
      in if major \<ge> 10 \<and> minor = 0
         then str_int major @ ''.'' @ str_int patch
         else str_int major @ ''.'' @ str_int minor @ ''.'' @ str_int patch)"

section \<open>_capabilities.py: Capabilities\<close>

text \<open>
  The module reads four values of its environment: \<open>pq.version()\<close>, the version of the
  libpq loaded at run time; \<open>pq.__build_version__\<close>, the version the wrapper was built
  with; \<open>pq.__impl__\<close>, the wrapper implementation name; and \<open>_cmodule.__version__\<close>,
  which is \<open>None\<close> when no C module is loaded.
\<close>

record pq_env =
  pq_version :: int
  pq_build_version :: int
  pq_impl :: string
  cmodule_version :: "string option"

datatype error =
    NotSupportedError string
  | TypeError string
  | LookupError string
  | UnicodeDecodeError string
  | OperationalError
  | ProgrammingError
  | DatabaseError
  | ValueError

definition libpq_source :: "pq_env \<Rightarrow> string" where
  "libpq_source env =
     (if pq_impl env = ''binary''
      then (let version = (case cmodule_version env of
                             None \<Rightarrow> ''unknown''
                           | Some v \<Rightarrow> if v = [] then ''unknown'' else v)
            in ''the psycopg[binary] package version '' @ version)
      else ''system libraries'')"

definition runtime_msg :: "pq_env \<Rightarrow> string \<Rightarrow> int \<Rightarrow> string" where
  "runtime_msg env feature want_version =
     ''the feature '' @ [CHR 0x27] @ feature @ [CHR 0x27] @ '' is not available:''
     @ '' the client libpq version (imported from '' @ libpq_source env @ '')''
     @ '' is '' @ version_pretty (pq_version env) @ ''; the feature''
     @ '' requires libpq version '' @ version_pretty want_version
     @ '' or newer''"

definition build_msg :: "pq_env \<Rightarrow> string \<Rightarrow> int \<Rightarrow> string" where
  "build_msg env feature want_version =
     ''the feature '' @ [CHR 0x27] @ feature @ [CHR 0x27] @ '' is not available:''
     @ '' you are using a psycopg['' @ pq_impl env @ ''] libpq wrapper built''
     @ '' with libpq version '' @ version_pretty (pq_build_version env) @ '';''
     @ '' the feature requires libpq version''
     @ '' '' @ version_pretty want_version @ '' or newer''"

definition has_feature :: "pq_env \<Rightarrow> string \<Rightarrow> int \<Rightarrow> bool \<Rightarrow> error + bool" where
  "has_feature env feature want_version check =
     (let msg = (if pq_version env < want_version then runtime_msg env feature want_version
                 else if pq_build_version env < want_version then build_msg env feature want_version
                 else '''')
      in if msg = [] then Inr True
         else if check then Inl (NotSupportedError msg)
         else Inr False)"

definition has_encrypt_password :: "pq_env \<Rightarrow> bool \<Rightarrow> error + bool" where
  "has_encrypt_password env check = has_feature env ''pq.PGconn.encrypt_password()'' 100000 check"

definition has_hostaddr :: "pq_env \<Rightarrow> bool \<Rightarrow> error + bool" where
  "has_hostaddr env check = has_feature env ''Connection.info.hostaddr'' 120000 check"

definition has_pipeline :: "pq_env \<Rightarrow> bool \<Rightarrow> error + bool" where
  "has_pipeline env check = has_feature env ''Connection.pipeline()'' 140000 check"

definition has_set_trace_flags :: "pq_env \<Rightarrow> bool \<Rightarrow> error + bool" where
  "has_set_trace_flags env check = has_feature env ''PGconn.set_trace_flags()'' 140000 check"

definition has_cancel_safe :: "pq_env \<Rightarrow> bool \<Rightarrow> error + bool" where
  "has_cancel_safe env check = has_feature env ''Connection.cancel_safe()'' 170000 check"

definition has_pgbouncer_prepared :: "pq_env \<Rightarrow> bool \<Rightarrow> error + bool" where
  "has_pgbouncer_prepared env check =
     has_feature env ''PgBouncer prepared statements compatibility'' 170000 check"

section \<open>pq/misc.py: error messages\<close>

text \<open>
  A decoded message is a Python \<open>str\<close>, a sequence of Unicode code points; the severity
  prefixes reach beyond one byte, so such text is a list of code points.  \<open>bytes\<close> are
  lists of 8-bit characters.  \<open>str_of\<close> reads an ASCII literal as code points.
\<close>

type_synonym ustr = "nat list"
type_synonym bytes = "char list"

definition str_of :: "string \<Rightarrow> ustr" where
  "str_of s = map of_char s"

text \<open>
  \<open>is_space\<close> is the whitespace test shared by \<open>str.strip()\<close> and by \<open>\s\<close> in a
  \<open>str\<close> pattern: the code points for which \<open>str.isspace()\<close> holds.
\<close>

definition is_space :: "nat \<Rightarrow> bool" where
  "is_space c =
     ((9 \<le> c \<and> c \<le> 13) \<or> (28 \<le> c \<and> c \<le> 32) \<or> c = 133 \<or> c = 160 \<or> c = 5760
      \<or> (8192 \<le> c \<and> c \<le> 8202) \<or> c = 8232 \<or> c = 8233 \<or> c = 8239 \<or> c = 8287
      \<or> c = 12288)"

definition py_strip :: "ustr \<Rightarrow> ustr" where
  "py_strip s = rev (dropWhile is_space (rev (dropWhile is_space s)))"

text \<open>
  The alternatives of the \<open>PREFIXES\<close> pattern, one definition for each line of the
  pattern (one localization each), in the order of the source.  The pattern is compiled
  with \<open>re.VERBOSE\<close>: blanks and \<open>#\<close> comments are not part of it, and the escaped
  blank and parentheses of the Turkish line are literal characters.
\<close>

definition prefixes_de :: "ustr list" where
  "prefixes_de =
     [str_of ''DEBUG'',
      str_of ''INFO'',
      str_of ''HINWEIS'',
      str_of ''WARNUNG'',
      str_of ''FEHLER'',
      str_of ''LOG'',
      str_of ''FATAL'',
      str_of ''PANIK'']"

definition prefixes_en :: "ustr list" where
  "prefixes_en =
     [str_of ''DEBUG'',
      str_of ''INFO'',
      str_of ''NOTICE'',
      str_of ''WARNING'',
      str_of ''ERROR'',
      str_of ''LOG'',
      str_of ''FATAL'',
      str_of ''PANIC'']"

definition prefixes_es :: "ustr list" where
  "prefixes_es =
     [str_of ''DEBUG'',
      str_of ''INFO'',
      str_of ''NOTICE'',
      str_of ''WARNING'',
      str_of ''ERROR'',
      str_of ''LOG'',
      str_of ''FATAL'',
      str_of ''PANIC'']"

definition prefixes_fr :: "ustr list" where
  "prefixes_fr =
     [str_of ''DEBUG'',
      str_of ''INFO'',
      str_of ''NOTICE'',
      str_of ''ATTENTION'',
      str_of ''ERREUR'',
      str_of ''LOG'',
      str_of ''FATAL'',
      str_of ''PANIC'']"

definition prefixes_id :: "ustr list" where
  "prefixes_id =
     [str_of ''DEBUG'',
      str_of ''INFO'',
      str_of ''NOTICE'',
      str_of ''PERINGATAN'',
      str_of ''ERROR'',
      str_of ''LOG'',
      str_of ''FATAL'',
      str_of ''PANIK'']"

definition prefixes_it :: "ustr list" where
  "prefixes_it =
     [str_of ''DEBUG'',
      str_of ''INFO'',
      str_of ''NOTIFICA'',
      str_of ''ATTENZIONE'',
      str_of ''ERRORE'',
      str_of ''LOG'',
      str_of ''FATALE'',
      str_of ''PANICO'']"

definition prefixes_ja :: "ustr list" where
  "prefixes_ja =
     [str_of ''DEBUG'',
      str_of ''INFO'',
      str_of ''NOTICE'',
      str_of ''WARNING'',
      str_of ''ERROR'',
      str_of ''LOG'',
      str_of ''FATAL'',
      str_of ''PANIC'']"

definition prefixes_ko :: "ustr list" where
  "prefixes_ko =
     [[46356, 48260, 44536],
      [51221, 48372],
      [50508, 47548],
      [44221, 44256],
      [50724, 47448],
      [47196, 44536],
      [52824, 47749, 51201, 50724, 47448],
      [49552, 49345]]"

definition prefixes_pl :: "ustr list" where
  "prefixes_pl =
     [str_of ''DEBUG'',
      str_of ''INFORMACJA'',
      str_of ''UWAGA'',
      [79, 83, 84, 82, 90, 69, 379, 69, 78, 73, 69],
      [66, 321, 260, 68],
      str_of ''DZIENNIK'',
      str_of ''KATASTROFALNY'',
      str_of ''PANIKA'']"

definition prefixes_pt_BR :: "ustr list" where
  "prefixes_pt_BR =
     [[68, 69, 80, 85, 82, 65, 199, 195, 79],
      str_of ''INFO'',
      str_of ''NOTA'',
      str_of ''AVISO'',
      str_of ''ERRO'',
      str_of ''LOG'',
      str_of ''FATAL'',
      [80, 194, 78, 73, 67, 79]]"

definition prefixes_ru :: "ustr list" where
  "prefixes_ru =
     [[1054, 1058, 1051, 1040, 1044, 1050, 1040],
      [1048, 1053, 1060, 1054, 1056, 1052, 1040, 1062, 1048, 1071],
      [1047, 1040, 1052, 1045, 1063, 1040, 1053, 1048, 1045],
      [1055, 1056, 1045, 1044, 1059, 1055, 1056, 1045, 1046, 1044, 1045, 1053, 1048, 1045],
      [1054, 1064, 1048, 1041, 1050, 1040],
      [1057, 1054, 1054, 1041, 1065, 1045, 1053, 1048, 1045],
      [1042, 1040, 1046, 1053, 1054],
      [1055, 1040, 1053, 1048, 1050, 1040]]"

definition prefixes_sv :: "ustr list" where
  "prefixes_sv =
     [str_of ''DEBUG'',
      str_of ''INFO'',
      str_of ''NOTIS'',
      str_of ''VARNING'',
      str_of ''FEL'',
      str_of ''LOGG'',
      str_of ''FATALT'',
      str_of ''PANIK'']"

definition prefixes_tr :: "ustr list" where
  "prefixes_tr =
     [str_of ''DEBUG'',
      [66, 304, 76, 71, 304],
      str_of ''NOT'',
      str_of ''UYARI'',
      str_of ''HATA'',
      str_of ''LOG'',
      [214, 76, 220, 77, 67, 220, 76, 32, 40, 70, 65, 84, 65, 76, 41],
      [75, 82, 304, 84, 304, 75]]"

definition prefixes_uk :: "ustr list" where
  "prefixes_uk =
     [[1053, 1040, 1051, 1040, 1043, 1054, 1044, 1046, 1045, 1053, 1053, 1071],
      [1030, 1053, 1060, 1054, 1056, 1052, 1040, 1062, 1030, 1071],
      [1055, 1054, 1042, 1030, 1044, 1054, 1052, 1051, 1045, 1053, 1053, 1071],
      [1055, 1054, 1055, 1045, 1056, 1045, 1044, 1046, 1045, 1053, 1053, 1071],
      [1055, 1054, 1052, 1048, 1051, 1050, 1040],
      [1047, 1040, 1055, 1048, 1057, 1059, 1042, 1040, 1053, 1053, 1071],
      [1060, 1040, 1058, 1040, 1051, 1068, 1053, 1054],
      [1055, 1040, 1053, 1030, 1050, 1040]]"

definition prefixes_zh_CN :: "ustr list" where
  "prefixes_zh_CN =
     [[35843, 35797],
      [20449, 24687],
      [27880, 24847],
      [35686, 21578],
      [38169, 35823],
      [26085, 24535],
      [33268, 21629, 38169, 35823],
      [27604, 33268, 21629, 38169, 35823, 36824, 36807, 20998, 30340, 38169, 35823]]"

definition PREFIXES :: "ustr list" where
  "PREFIXES =
     prefixes_de @ prefixes_en @ prefixes_es @ prefixes_fr
     @ prefixes_id @ prefixes_it @ prefixes_ja @ prefixes_ko
     @ prefixes_pl @ prefixes_pt_BR @ prefixes_ru @ prefixes_sv
     @ prefixes_tr @ prefixes_uk @ prefixes_zh_CN"

text \<open>
  \<open>PREFIXES.match(msg)\<close> looks for a match at the start of \<open>msg\<close> only.  The pattern
  is an alternative, then a colon, then one or more whitespace characters, taken
  greedily.  The alternatives are tried in order, and one that is not followed by a colon
  and a whitespace character is given up for the next.  \<open>match_alternative\<close> is the end
  of the match with one alternative, \<open>prefixes_match\<close> is \<open>m.span()[1]\<close>, or \<open>None\<close>
  when nothing matches.
\<close>

definition match_alternative :: "ustr \<Rightarrow> ustr \<Rightarrow> nat option" where
  "match_alternative p msg =
     (if startswith msg (p @ [58])
         \<and> (case drop (length p + 1) msg of [] \<Rightarrow> False | w # _ \<Rightarrow> is_space w)
      then Some (length p + 1 + length (takeWhile is_space (drop (length p + 1) msg)))
      else None)"

fun prefixes_match :: "ustr list \<Rightarrow> ustr \<Rightarrow> nat option" where
  "prefixes_match [] msg = None"
| "prefixes_match (p # ps) msg =
     (case match_alternative p msg of
        Some e \<Rightarrow> Some e
      | None \<Rightarrow> prefixes_match ps msg)"

definition strip_severity :: "ustr \<Rightarrow> ustr" where
  "strip_severity msg =
     py_strip (case prefixes_match PREFIXES msg of
                 Some e \<Rightarrow> drop e msg
               | None \<Rightarrow> msg)"

text \<open>
  The argument of \<open>error_message\<close> is told apart by its attributes: an object with
  \<open>error_field\<close> is a \<open>PGresult\<close>, one with \<open>error_message\<close> only is a \<open>PGconn\<close>,
  anything else (kept with the name of its type) is a \<open>TypeError\<close>.
\<close>

datatype ConnStatus = OK | BAD

record pgresult =
  res_error_message :: bytes

record pgconn =
  conn_status :: ConnStatus
  conn_error_message :: bytes
  conn_client_encoding :: string

datatype pq_object =
    PGresult_obj pgresult
  | PGconn_obj pgconn
  | Other_obj string

text \<open>
  Two callees of \<open>error_message\<close> are parameters of the model, and both may raise.
  \<open>bmsg.decode(encoding, errors)\<close> is Python's own: it raises \<open>LookupError\<close> for a
  name that is no text codec, and a codec may raise whatever the error handler is.
  \<open>pgconn_encoding\<close> belongs to the \<open>_encodings\<close> module, which is not among the
  sources; it raises \<open>NotSupportedError\<close> for an encoding of the server that has no
  Python codec.
\<close>

type_synonym py_decode = "bytes \<Rightarrow> string \<Rightarrow> string \<Rightarrow> error + ustr"
type_synonym py_pgconn_encoding = "pgconn \<Rightarrow> error + string"

text \<open>
  \<open>error_message\<close>, in the order of the source: the kind of the object is told first;
  for a \<open>PGconn\<close> whose status is \<open>OK\<close> the fallback encoding is replaced by
  \<open>pgconn_encoding(obj)\<close>, which is called before the message is read or tested; then a
  message that is not empty is decoded with the \<open>replace\<close> handler and stripped.
\<close>

definition error_message ::
  "py_decode \<Rightarrow> py_pgconn_encoding \<Rightarrow> pq_object \<Rightarrow> string \<Rightarrow> error + ustr" where
  "error_message decode pgconn_encoding obj encoding =
     (case (case obj of
              PGresult_obj res \<Rightarrow> Inr (res_error_message res, encoding)
            | PGconn_obj conn \<Rightarrow>
                (if conn_status conn = OK
                 then (case pgconn_encoding conn of
                         Inl e \<Rightarrow> Inl e
                       | Inr encoding' \<Rightarrow> Inr (conn_error_message conn, encoding'))
                 else Inr (conn_error_message conn, encoding))
            | Other_obj tyname \<Rightarrow>
                Inl (TypeError (''PGconn or PGresult expected, got '' @ tyname))) of
        Inl e \<Rightarrow> Inl e
      | Inr (bmsg, encoding') \<Rightarrow>
          if bmsg \<noteq> []
          then (case decode bmsg encoding' ''replace'' of
                  Inl e \<Rightarrow> Inl e
                | Inr msg \<Rightarrow> Inr (strip_severity msg))
          else Inr (str_of ''no details available''))"

text \<open>
  Instances of the two parameters, for evaluating \<open>error_message\<close>.  \<open>sample_decode\<close>
  is \<open>bytes.decode\<close> for two of Python's codecs: \<open>latin1\<close> maps each byte to the code
  point of the same number; \<open>ascii\<close> does so for bytes below 128, and for a byte above
  gives U+FFFD under the \<open>replace\<close> handler and raises \<open>UnicodeDecodeError\<close> under any
  other; a name that is neither raises \<open>LookupError\<close>.
\<close>

definition sample_decode :: py_decode where
  "sample_decode bmsg encoding errors =
     (if encoding = ''latin1'' then Inr (map of_char bmsg)
      else if encoding = ''ascii''
      then (if errors = ''replace''
            then Inr (map (\<lambda>b. if of_char b < (128::nat) then of_char b else 65533) bmsg)
            else if list_all (\<lambda>b. of_char b < (128::nat)) bmsg
            then Inr (map of_char bmsg)
            else Inl (UnicodeDecodeError encoding))
      else Inl (LookupError (''unknown encoding: '' @ encoding)))"

text \<open>
  Modelled from the spec: \<open>pgconn_encoding\<close> of the missing \<open>_encodings\<close> module, for
  a server that knows LATIN1, SQL_ASCII and encodings without a Python codec, for which
  it raises \<open>NotSupportedError\<close> (section 7: "encoding recognized but not locally
  decodable").
\<close>

definition sample_pgconn_encoding :: py_pgconn_encoding where
  "sample_pgconn_encoding conn =
     (if conn_client_encoding conn = ''LATIN1'' then Inr ''latin1''
      else if conn_client_encoding conn = ''SQL_ASCII'' then Inr ''ascii''
      else Inl (NotSupportedError
                  (''codec not available in Python: '' @ conn_client_encoding conn)))"

section \<open>The connection, modelled from the specification\<close>

text \<open>
  The connection class and its notice dispatch are not among the sources at hand; what
  follows is written from sections 3, 4.3, 4.4 and 7 of the specification.  The server
  is an input: each operation that needs a round trip takes the server's reply.  The
  negotiation of encodings (section 4.2), the execution gate shared by concurrent callers
  (section 4.5), pipeline mode and cursors take no part in the operations modelled here.
\<close>

subsection \<open>Connection, notices and the environment\<close>

text \<open>
  Modelled from the spec: the data model of section 3.  The transaction status and the
  connection with its status, transaction status, autocommit flag and the ordered
  registry of notice handlers it owns.
\<close>

datatype TransactionStatus = IDLE | IN_TRANSACTION | IN_ERROR | UNKNOWN

text \<open>
  Modelled from the spec: a notice, "an asynchronous informational/warning message from
  the server", with the two fields the handlers of the tests read.
\<close>

record notice =
  severity :: string
  message_primary :: string

text \<open>
  Modelled from the spec: the NoticeHandler registration of section 3, "a callable
  reference plus insertion order; identity-based removal".  A handler is a callable of
  the application: called with a notice and the application's state, it returns the text
  of the error it raised, if it raised one, and the application's state as it left it.
\<close>

record 'u handler =
  identity :: nat
  description :: string
  call :: "notice \<Rightarrow> 'u \<Rightarrow> string option \<times> 'u"

text \<open>
  Modelled from the spec: the severity of a log record; handler failures are logged "at
  error severity".
\<close>

datatype log_level = ERROR | WARNING | INFO

text \<open>
  Modelled from the spec: what dispatch touches outside of the connection (section 4.3):
  the application's state, the log, and the identities of the handlers invoked so far.
\<close>

record 'u environment =
  app_state :: 'u
  log_records :: "(log_level \<times> string) list"
  invoked :: "nat list"

text \<open>
  Modelled from the spec: the Connection of section 3, with the fields the operations of
  sections 4.3 and 4.4 read and write.
\<close>

record 'u connection =
  status :: ConnStatus
  transaction_status :: TransactionStatus
  autocommit :: bool
  handlers :: "'u handler list"

text \<open>
  Modelled from the spec: section 3, closed is "derived/consistent with status == BAD".
\<close>

definition closed :: "'u connection \<Rightarrow> bool" where
  "closed c = (status c = BAD)"

text \<open>
  Modelled from the spec: the server's answer to a command, as sections 4.4 and 7 tell
  them apart (accepted, rejected, connection lost), with the notices that came with it.
\<close>

datatype server_result = Accepted | Rejected | ConnectionLost

record server_reply =
  reply_result :: server_result
  reply_notices :: "notice list"

subsection \<open>Notice dispatch\<close>

text \<open>
  Modelled from the spec: add_handler of section 4.3, "appends h to the ordered
  registry; duplicates allowed".
\<close>

definition add_notice_handler :: "'u connection \<Rightarrow> 'u handler \<Rightarrow> 'u connection" where
  "add_notice_handler c h = c\<lparr>handlers := handlers c @ [h]\<rparr>"

text \<open>
  Modelled from the spec: the registry without the first handler of the given identity,
  or nothing when no handler has it.
\<close>

fun remove_first :: "nat \<Rightarrow> 'u handler list \<Rightarrow> 'u handler list option" where
  "remove_first i [] = None"
| "remove_first i (h # hs) =
     (if identity h = i then Some hs
      else (case remove_first i hs of None \<Rightarrow> None | Some hs' \<Rightarrow> Some (h # hs')))"

text \<open>
  Modelled from the spec: remove_handler of section 4.3, "removes the first occurrence
  matching h by identity; fails with an invalid-argument error if no occurrence
  exists".
\<close>

definition remove_notice_handler ::
  "'u connection \<Rightarrow> nat \<Rightarrow> (error + unit) \<times> 'u connection" where
  "remove_notice_handler c i =
     (case remove_first i (handlers c) of
        None \<Rightarrow> (Inl ValueError, c)
      | Some hs \<Rightarrow> (Inr (), c\<lparr>handlers := hs\<rparr>))"

text \<open>
  Modelled from the spec: one invocation inside the fault boundary of section 4.3; an
  error raised by the handler is "caught, logged at error severity (including the
  handler's description and error text)".
\<close>

definition invoke :: "'u handler \<Rightarrow> notice \<Rightarrow> 'u environment \<Rightarrow> 'u environment" where
  "invoke h ev env =
     (case call h ev (app_state env) of
        (None, u) \<Rightarrow> env\<lparr>app_state := u, invoked := invoked env @ [identity h]\<rparr>
      | (Some err, u) \<Rightarrow>
          env\<lparr>app_state := u, invoked := invoked env @ [identity h],
              log_records := log_records env @ [(ERROR, description h @ '': '' @ err)]\<rparr>)"

text \<open>
  Modelled from the spec: dispatch of section 4.3, "iterates handlers in registration
  order; invokes each with the event; ... dispatch continues to the next handler".
\<close>

fun dispatch :: "'u handler list \<Rightarrow> notice \<Rightarrow> 'u environment \<Rightarrow> 'u environment" where
  "dispatch [] ev env = env"
| "dispatch (h # hs) ev env = dispatch hs ev (invoke h ev env)"

text \<open>
  Modelled from the spec: section 4.3, dispatch is "invoked internally when the native
  layer surfaces a server notice/warning", once for each notice of a reply.
\<close>

fun dispatch_all :: "'u handler list \<Rightarrow> notice list \<Rightarrow> 'u environment \<Rightarrow> 'u environment" where
  "dispatch_all hs [] env = env"
| "dispatch_all hs (ev # evs) env = dispatch_all hs evs (dispatch hs ev env)"

subsection \<open>Operations of the connection\<close>

text \<open>
  Modelled from the spec: what an operation yields, the error it fails with or nothing,
  and the connection and the environment it leaves.
\<close>

type_synonym 'u outcome = "(error + unit) \<times> 'u connection \<times> 'u environment"

text \<open>
  Modelled from the spec: connect of section 4.4, "on success returns a Connection with
  status=OK, transaction_status=IDLE; on failure fails with OperationalError";
  autocommit is "bool, default false".
\<close>

definition connect :: "bool \<Rightarrow> error + 'u connection" where
  "connect handshake_ok =
     (if \<not> handshake_ok then Inl OperationalError
      else Inr \<lparr>status = OK, transaction_status = IDLE, autocommit = False, handlers = []\<rparr>)"

text \<open>
  Modelled from the spec: close of section 4.4, "if already BAD, no-op and returns
  successfully; otherwise releases the underlying session, sets status=BAD", the
  terminal state being "BAD (with transaction_status = UNKNOWN)".
\<close>

definition close :: "'u connection \<Rightarrow> 'u environment \<Rightarrow> 'u outcome" where
  "close c env =
     (if status c = BAD then (Inr (), c, env)
      else (Inr (), c\<lparr>status := BAD, transaction_status := UNKNOWN\<rparr>, env))"

text \<open>
  Modelled from the spec: a command sent to the server, completed by the server's
  reply (sections 4.3, 4.4 and 7): the notices that came with the reply are dispatched;
  a rejected command leaves IN_ERROR and surfaces DatabaseError; a lost connection
  surfaces OperationalError and leaves the connection BAD.
\<close>

definition run_command :: "'u connection \<Rightarrow> 'u environment \<Rightarrow> server_reply \<Rightarrow> 'u outcome" where
  "run_command c env reply =
     (let env1 = dispatch_all (handlers c) (reply_notices reply) env
      in case reply_result reply of
           Accepted \<Rightarrow> (Inr (), c, env1)
         | Rejected \<Rightarrow> (Inl DatabaseError, c\<lparr>transaction_status := IN_ERROR\<rparr>, env1)
         | ConnectionLost \<Rightarrow>
             (Inl OperationalError, c\<lparr>status := BAD, transaction_status := UNKNOWN\<rparr>, env1))"

text \<open>
  Modelled from the spec: commit and rollback of section 4.4, "valid only if
  status==OK; otherwise fails with OperationalError. Sends the corresponding command;
  on success sets transaction_status=IDLE".
\<close>

definition end_transaction :: "'u connection \<Rightarrow> 'u environment \<Rightarrow> server_reply \<Rightarrow> 'u outcome" where
  "end_transaction c env reply =
     (if status c \<noteq> OK then (Inl OperationalError, c, env)
      else (case run_command c env reply of
              (Inr u, c', env') \<Rightarrow> (Inr (), c'\<lparr>transaction_status := IDLE\<rparr>, env')
            | (Inl e, c', env') \<Rightarrow> (Inl e, c', env')))"

text \<open>
  Modelled from the spec: commit of section 4.4.
\<close>

definition commit :: "'u connection \<Rightarrow> 'u environment \<Rightarrow> server_reply \<Rightarrow> 'u outcome" where
  "commit c env reply = end_transaction c env reply"

text \<open>
  Modelled from the spec: rollback of section 4.4.
\<close>

definition rollback :: "'u connection \<Rightarrow> 'u environment \<Rightarrow> server_reply \<Rightarrow> 'u outcome" where
  "rollback c env reply = end_transaction c env reply"

text \<open>
  Modelled from the spec: execute of section 4.4, for one statement whose text is the
  server's matter: "if status!=OK fails with OperationalError. If autocommit is false
  and current status is IDLE, the first statement of a new unit of work implicitly
  transitions to IN_TRANSACTION before/with execution"; then the command is sent.
\<close>

definition execute :: "'u connection \<Rightarrow> 'u environment \<Rightarrow> server_reply \<Rightarrow> 'u outcome" where
  "execute c env reply =
     (if status c \<noteq> OK then (Inl OperationalError, c, env)
      else run_command
             (if \<not> autocommit c \<and> transaction_status c = IDLE
              then c\<lparr>transaction_status := IN_TRANSACTION\<rparr> else c)
             env reply)"

text \<open>
  Modelled from the spec: the autocommit setter of section 4.4, "fails with
  ProgrammingError unless status==OK AND transaction_status==IDLE".
\<close>

definition set_autocommit ::
  "'u connection \<Rightarrow> bool \<Rightarrow> (error + unit) \<times> 'u connection" where
  "set_autocommit c value =
     (if status c = OK \<and> transaction_status c = IDLE
      then (Inr (), c\<lparr>autocommit := value\<rparr>)
      else (Inl ProgrammingError, c))"

text \<open>
  Modelled from the spec: the operations of section 6 that the model covers, for
  statements about all that may follow.
\<close>

datatype 'u operation =
    Close
  | Commit server_reply
  | Rollback server_reply
  | Execute server_reply
  | SetAutocommit bool
  | AddNoticeHandler "'u handler"
  | RemoveNoticeHandler nat

text \<open>
  Modelled from the spec: the state an operation of section 6 leaves behind.
\<close>

fun apply_op ::
  "'u operation \<Rightarrow> 'u connection \<times> 'u environment \<Rightarrow> 'u connection \<times> 'u environment" where
  "apply_op Close (c, env) = snd (close c env)"
| "apply_op (Commit reply) (c, env) = snd (commit c env reply)"
| "apply_op (Rollback reply) (c, env) = snd (rollback c env reply)"
| "apply_op (Execute reply) (c, env) = snd (execute c env reply)"
| "apply_op (SetAutocommit value) (c, env) = (snd (set_autocommit c value), env)"
| "apply_op (AddNoticeHandler h) (c, env) = (add_notice_handler c h, env)"
| "apply_op (RemoveNoticeHandler i) (c, env) = (snd (remove_notice_handler c i), env)"

text \<open>
  Modelled from the spec: operations applied one after another.
\<close>

definition run_ops ::
  "'u operation list \<Rightarrow> 'u connection \<times> 'u environment \<Rightarrow> 'u connection \<times> 'u environment" where
  "run_ops ops st = fold apply_op ops st"

subsection \<open>A scenario: the handlers of the test of notice dispatch\<close>

text \<open>
  The four handlers that \<open>test_notice_handlers\<close> registers, in its order: \<open>cb1\<close>
  records the primary message, \<open>cb2\<close> raises, the string registered in place of a
  callable fails when it is called, and the last records the severity.  The application's
  state is the pair of lists the test fills, \<open>messages\<close> and \<open>severities\<close>.
\<close>

type_synonym test_app = "string list \<times> string list"






definition test_env :: "test_app environment" where
  "test_env = \<lparr>app_state = ([], []), log_records = [], invoked = []\<rparr>"

definition test_conn :: "test_app connection" where
  "test_conn = \<lparr>status = OK, transaction_status = IDLE, autocommit = False, handlers = []\<rparr>"

section \<open>Properties of the capability checks and of version rendering\<close>

lemma divmod_hundred:
  fixes q r :: int
  assumes "0 \<le> r" "r < 100"
  shows "(q * 100 + r) mod 100 = r" and "(q * 100 + r) div 100 = q"
  using assms by simp_all

lemma runtime_msg_nonempty: "runtime_msg env f w \<noteq> []"
  by (simp add: runtime_msg_def)

lemma build_msg_nonempty: "build_msg env f w \<noteq> []"
  by (simp add: build_msg_def)

text \<open>
  Claim C1.  Without \<open>check\<close>, \<open>has_feature\<close> returns a boolean for every feature name,
  minimum version, runtime version and build version (it never raises), and that boolean
  is true exactly when both the runtime version and the build version are at least the
  minimum.  When the feature is available the result is \<open>True\<close> whatever \<open>check\<close> is.
\<close>

theorem has_feature_available_iff:
  "has_feature env feature want False =
     Inr (want \<le> pq_version env \<and> want \<le> pq_build_version env)
   \<and> (want \<le> pq_version env \<and> want \<le> pq_build_version env
        \<longrightarrow> has_feature env feature want check = Inr True)"
  by (simp add: has_feature_def Let_def runtime_msg_nonempty build_msg_nonempty not_less)

theorem has_feature_available_iff_witness:
  "has_feature \<lparr>pq_version = 160004, pq_build_version = 150002, pq_impl = ''c'',
                 cmodule_version = Some ''3.2.1''\<rparr> ''Connection.pipeline()'' 140000 False
     = Inr True
   \<and> has_feature \<lparr>pq_version = 160004, pq_build_version = 150002, pq_impl = ''c'',
                 cmodule_version = Some ''3.2.1''\<rparr> ''Connection.pipeline()'' 140000 True
     = Inr True"
  using has_feature_available_iff
    [of "\<lparr>pq_version = 160004, pq_build_version = 150002, pq_impl = ''c'',
          cmodule_version = Some ''3.2.1''\<rparr>" "''Connection.pipeline()''" 140000 True]
  by simp

text \<open>
  Claim C3.  A version number whose fields are \<open>major\<close>, \<open>minor\<close> and \<open>patch\<close> in the
  scheme \<open>MMmmpp\<close> (two decimal digits each for \<open>minor\<close> and \<open>patch\<close>) is rendered as
  \<open>major.minor.patch\<close>, collapsed to \<open>major.patch\<close> when \<open>minor = 0\<close> and \<open>major \<ge> 10\<close>;
  140002 is rendered as 14.2 and 90610 as 9.6.10.
\<close>

theorem version_pretty_encoded:
  assumes "0 \<le> major" "0 \<le> minor" "minor < 100" "0 \<le> patch" "patch < 100"
  shows "version_pretty (major * 10000 + minor * 100 + patch) =
           (if minor = 0 \<and> major \<ge> 10
            then str_int major @ ''.'' @ str_int patch
            else str_int major @ ''.'' @ str_int minor @ ''.'' @ str_int patch)"
proof -
  have v: "major * 10000 + minor * 100 + patch = (major * 100 + minor) * 100 + patch"
    by (simp add: algebra_simps)
  have p: "((major * 100 + minor) * 100 + patch) mod 100 = patch"
    using assms by (rule_tac divmod_hundred(1))
  have d: "((major * 100 + minor) * 100 + patch) div 100 = major * 100 + minor"
    using assms by (rule_tac divmod_hundred(2))
  have m: "(major * 100 + minor) mod 100 = minor"
    using assms by (rule_tac divmod_hundred(1))
  have M: "(major * 100 + minor) div 100 = major"
    using assms by (rule_tac divmod_hundred(2))
  show ?thesis
    unfolding v version_pretty_def Let_def p d m M by (rule if_cong) auto
qed

theorem version_pretty_encoded_witness:
  "version_pretty 140002 = ''14.2'' \<and> version_pretty 90610 = ''9.6.10''"
proof -
  have a: "version_pretty (14 * 10000 + 0 * 100 + 2) = str_int 14 @ ''.'' @ str_int 2"
    using version_pretty_encoded [of 14 0 2] by simp
  have b: "version_pretty (9 * 10000 + 6 * 100 + 10)
             = str_int 9 @ ''.'' @ str_int 6 @ ''.'' @ str_int 10"
    using version_pretty_encoded [of 9 6 10] by simp
  have s: "str_int 14 = ''14''" "str_int 2 = ''2''" "str_int 9 = ''9''"
          "str_int 6 = ''6''" "str_int 10 = ''10''"
    by (simp_all add: str_int_def str_nat.simps digit_char_def)
  from a b show ?thesis by (simp add: s)
qed

lemma contains_here: "contains (sub @ q) sub"
proof (cases "sub @ q")
  case Nil
  then show ?thesis by simp
next
  case (Cons c cs)
  have "startswith (sub @ q) sub" by (simp add: startswith_def)
  then show ?thesis unfolding Cons by simp
qed

lemma contains_Cons: "contains cs sub \<Longrightarrow> contains (c # cs) sub"
  by simp

lemma contains_skip: "contains b sub \<Longrightarrow> contains (a @ b) sub"
  by (induction a) (simp_all del: contains.simps add: contains_Cons)

lemma runtime_msg_contains:
  "contains (runtime_msg env f w) f"
  "contains (runtime_msg env f w) (version_pretty w)"
  "contains (runtime_msg env f w) (version_pretty (pq_version env))"
  "contains (runtime_msg env f w) (libpq_source env)"
  unfolding runtime_msg_def
  by (rule contains_here | rule contains_skip)+

lemma build_msg_contains:
  "contains (build_msg env f w) f"
  "contains (build_msg env f w) (version_pretty w)"
  "contains (build_msg env f w) (version_pretty (pq_build_version env))"
  "contains (build_msg env f w) (pq_impl env)"
  unfolding build_msg_def
  by (rule contains_here | rule contains_skip)+

lemma version_pretty_samples:
  "version_pretty 130000 = ''13.0''" "version_pretty 140000 = ''14.0''"
  "version_pretty 160004 = ''16.4''" "str_int 160004 = ''160004''"
  by (simp_all add: version_pretty_def str_int_def str_nat.simps digit_char_def)

text \<open>
  Claim C2, as stated, asks for both observed versions in the message.  The runtime check
  and the build check are the two branches of an \<open>if\<close>/\<open>elif\<close>, each with its own
  message: with a runtime libpq 13.0 and a wrapper built with libpq 16.4, asking for 14.0
  raises a message that reports 13.0 and its source and says nothing of the build version.
\<close>

theorem has_feature_message_counterexample:
  "has_feature \<lparr>pq_version = 130000, pq_build_version = 160004, pq_impl = ''python'',
                 cmodule_version = None\<rparr> ''Connection.pipeline()'' 140000 True
     = Inl (NotSupportedError
         (''the feature '' @ [CHR 0x27] @ ''Connection.pipeline()'' @ [CHR 0x27]
          @ '' is not available: the client libpq version (imported from system libraries)''
          @ '' is 13.0; the feature requires libpq version 14.0 or newer''))
   \<and> \<not> contains
         (''the feature '' @ [CHR 0x27] @ ''Connection.pipeline()'' @ [CHR 0x27]
          @ '' is not available: the client libpq version (imported from system libraries)''
          @ '' is 13.0; the feature requires libpq version 14.0 or newer'')
         (version_pretty 160004)
   \<and> \<not> contains
         (''the feature '' @ [CHR 0x27] @ ''Connection.pipeline()'' @ [CHR 0x27]
          @ '' is not available: the client libpq version (imported from system libraries)''
          @ '' is 13.0; the feature requires libpq version 14.0 or newer'')
         (str_int 160004)"
  by (simp add: has_feature_def runtime_msg_def libpq_source_def version_pretty_samples
        startswith_def)

text \<open>
  Claim C2, amended.  With \<open>check\<close>, \<open>has_feature\<close> raises \<open>NotSupportedError\<close> exactly
  when the runtime version or the build version is below the minimum, and returns \<open>True\<close>
  otherwise.  The message contains the feature name and the required version; when the
  runtime version is below the minimum it contains the observed runtime version and its
  source, and otherwise (only the build version is below) it contains the observed build
  version and the name of the wrapper implementation.
\<close>

theorem has_feature_check_raises:
  "(pq_version env < want \<or> pq_build_version env < want \<longrightarrow>
      (\<exists>msg. has_feature env feature want True = Inl (NotSupportedError msg)
         \<and> contains msg feature \<and> contains msg (version_pretty want)
         \<and> (if pq_version env < want
             then contains msg (version_pretty (pq_version env))
                  \<and> contains msg (libpq_source env)
             else contains msg (version_pretty (pq_build_version env))
                  \<and> contains msg (pq_impl env))))
   \<and> (\<not> (pq_version env < want \<or> pq_build_version env < want) \<longrightarrow>
        has_feature env feature want True = Inr True)"
proof (intro conjI impI)
  assume low: "pq_version env < want \<or> pq_build_version env < want"
  show "\<exists>msg. has_feature env feature want True = Inl (NotSupportedError msg)
         \<and> contains msg feature \<and> contains msg (version_pretty want)
         \<and> (if pq_version env < want
             then contains msg (version_pretty (pq_version env))
                  \<and> contains msg (libpq_source env)
             else contains msg (version_pretty (pq_build_version env))
                  \<and> contains msg (pq_impl env))"
  proof (cases "pq_version env < want")
    case True
    then have "has_feature env feature want True
                 = Inl (NotSupportedError (runtime_msg env feature want))"
      by (simp add: has_feature_def Let_def runtime_msg_nonempty)
    with True show ?thesis by (simp add: runtime_msg_contains)
  next
    case False
    with low have "pq_build_version env < want" by simp
    with False have "has_feature env feature want True
                 = Inl (NotSupportedError (build_msg env feature want))"
      by (simp add: has_feature_def Let_def build_msg_nonempty)
    with False show ?thesis by (simp add: build_msg_contains)
  qed
next
  assume "\<not> (pq_version env < want \<or> pq_build_version env < want)"
  then show "has_feature env feature want True = Inr True"
    by (simp add: has_feature_def Let_def)
qed

theorem has_feature_check_raises_witness:
  "(\<exists>msg. has_feature \<lparr>pq_version = 150002, pq_build_version = 130004, pq_impl = ''binary'',
                        cmodule_version = Some ''3.2.1''\<rparr> ''Connection.pipeline()'' 140000 True
            = Inl (NotSupportedError msg)
        \<and> contains msg ''Connection.pipeline()'' \<and> contains msg (version_pretty 140000)
        \<and> contains msg (version_pretty 130004) \<and> contains msg ''binary'')
   \<and> has_feature \<lparr>pq_version = 150002, pq_build_version = 140001, pq_impl = ''binary'',
                   cmodule_version = Some ''3.2.1''\<rparr> ''Connection.pipeline()'' 140000 True
       = Inr True"
  using has_feature_check_raises
          [of "\<lparr>pq_version = 150002, pq_build_version = 130004, pq_impl = ''binary'',
                cmodule_version = Some ''3.2.1''\<rparr>" 140000 "''Connection.pipeline()''"]
        has_feature_check_raises
          [of "\<lparr>pq_version = 150002, pq_build_version = 140001, pq_impl = ''binary'',
                cmodule_version = Some ''3.2.1''\<rparr>" 140000 "''Connection.pipeline()''"]
  by simp

section \<open>Properties of error messages\<close>

lemma last_dropWhile: "dropWhile P xs \<noteq> [] \<Longrightarrow> last (dropWhile P xs) = last xs"
  by (induction xs) (auto split: if_splits)

lemma py_strip_stripped:
  "py_strip s = [] \<or> (\<not> is_space (hd (py_strip s)) \<and> \<not> is_space (last (py_strip s)))"
proof (cases "py_strip s = []")
  case True
  then show ?thesis by simp
next
  case False
  let ?t = "dropWhile is_space s"
  let ?r = "dropWhile is_space (rev ?t)"
  have r: "?r \<noteq> []" using False by (simp add: py_strip_def)
  have aux: "\<And>t. dropWhile is_space (rev t) \<noteq> [] \<Longrightarrow> t \<noteq> []" by auto
  have t: "?t \<noteq> []" using r by (rule aux)
  have "last (py_strip s) = hd ?r" using r by (simp add: py_strip_def last_rev)
  moreover have "\<not> is_space (hd ?r)" using r by (rule hd_dropWhile)
  moreover have "hd (py_strip s) = last ?r" using r by (simp add: py_strip_def hd_rev)
  moreover have "last ?r = last (rev ?t)" using r by (rule last_dropWhile)
  moreover have "last (rev ?t) = hd ?t" using t by (simp add: last_rev)
  moreover have "\<not> is_space (hd ?t)" using t by (rule hd_dropWhile)
  ultimately show ?thesis by simp
qed

lemma py_strip_dropWhile: "py_strip (dropWhile is_space s) = py_strip s"
  by (simp add: py_strip_def) 

lemma match_alternative_Some:
  "match_alternative p msg = Some e \<Longrightarrow>
     startswith msg (p @ [58])
     \<and> e = length p + 1 + length (takeWhile is_space (drop (length p + 1) msg))"
  by (simp add: match_alternative_def split: if_splits)

lemma prefixes_match_Some:
  "prefixes_match ps msg = Some e \<Longrightarrow> \<exists>p \<in> set ps. match_alternative p msg = Some e"
  by (induction ps) (auto split: option.splits)

lemma prefixes_match_found:
  "p \<in> set ps \<Longrightarrow> match_alternative p msg = Some e \<Longrightarrow> \<exists>e'. prefixes_match ps msg = Some e'"
  by (induction ps) (auto split: option.splits)

lemma append_sep_unique:
  "p @ c # r = q @ c # t \<Longrightarrow> c \<notin> set p \<Longrightarrow> c \<notin> set q \<Longrightarrow> p = q"
proof (induction p arbitrary: q)
  case Nil
  then show ?case by (cases q) auto
next
  case (Cons a p)
  then show ?case by (cases q) auto
qed

lemma startswith_colon_unique:
  assumes "startswith msg (p @ [58])" "startswith msg (q @ [58])"
    and "58 \<notin> set p" "58 \<notin> set q"
  shows "p = q"
proof -
  from assms(1) have "msg = (p @ [58]) @ drop (length (p @ [58])) msg"
    unfolding startswith_def by (metis append_take_drop_id)
  moreover from assms(2) have "msg = (q @ [58]) @ drop (length (q @ [58])) msg"
    unfolding startswith_def by (metis append_take_drop_id)
  ultimately have "p @ 58 # drop (length (p @ [58])) msg = q @ 58 # drop (length (q @ [58])) msg"
    by simp
  then show ?thesis using assms(3,4) by (rule append_sep_unique)
qed

lemma colon_free:
  "\<forall>p \<in> set PREFIXES. 58 \<notin> set p"
proof -
  have "\<forall>p \<in> set prefixes_de. 58 \<notin> set p" by (simp add: prefixes_de_def str_of_def)
  moreover have "\<forall>p \<in> set prefixes_en. 58 \<notin> set p" by (simp add: prefixes_en_def str_of_def)
  moreover have "\<forall>p \<in> set prefixes_es. 58 \<notin> set p" by (simp add: prefixes_es_def str_of_def)
  moreover have "\<forall>p \<in> set prefixes_fr. 58 \<notin> set p" by (simp add: prefixes_fr_def str_of_def)
  moreover have "\<forall>p \<in> set prefixes_id. 58 \<notin> set p" by (simp add: prefixes_id_def str_of_def)
  moreover have "\<forall>p \<in> set prefixes_it. 58 \<notin> set p" by (simp add: prefixes_it_def str_of_def)
  moreover have "\<forall>p \<in> set prefixes_ja. 58 \<notin> set p" by (simp add: prefixes_ja_def str_of_def)
  moreover have "\<forall>p \<in> set prefixes_ko. 58 \<notin> set p" by (simp add: prefixes_ko_def str_of_def)
  moreover have "\<forall>p \<in> set prefixes_pl. 58 \<notin> set p" by (simp add: prefixes_pl_def str_of_def)
  moreover have "\<forall>p \<in> set prefixes_pt_BR. 58 \<notin> set p" by (simp add: prefixes_pt_BR_def str_of_def)
  moreover have "\<forall>p \<in> set prefixes_ru. 58 \<notin> set p" by (simp add: prefixes_ru_def str_of_def)
  moreover have "\<forall>p \<in> set prefixes_sv. 58 \<notin> set p" by (simp add: prefixes_sv_def str_of_def)
  moreover have "\<forall>p \<in> set prefixes_tr. 58 \<notin> set p" by (simp add: prefixes_tr_def str_of_def)
  moreover have "\<forall>p \<in> set prefixes_uk. 58 \<notin> set p" by (simp add: prefixes_uk_def str_of_def)
  moreover have "\<forall>p \<in> set prefixes_zh_CN. 58 \<notin> set p" by (simp add: prefixes_zh_CN_def str_of_def)
  ultimately show ?thesis unfolding PREFIXES_def set_append by blast
qed

lemma strip_severity_prefix:
  assumes p: "p \<in> set PREFIXES" and w: "w \<noteq> []" "\<forall>c \<in> set w. is_space c"
  shows "strip_severity (p @ [58] @ w @ body) = py_strip body"
proof -
  let ?msg = "p @ [58] @ w @ body"
  let ?e = "length p + 1 + length (takeWhile is_space (w @ body))"
  have d: "drop (length p + 1) ?msg = w @ body" by simp
  have sw: "startswith ?msg (p @ [58])" by (simp add: startswith_def)
  have hdw: "is_space (hd w)" using w by (cases w) auto
  have m: "match_alternative p ?msg = Some ?e"
    unfolding match_alternative_def d using sw w hdw by (cases w) auto
  then obtain e' where e': "prefixes_match PREFIXES ?msg = Some e'"
    using prefixes_match_found [OF p] by blast
  then obtain q where q: "q \<in> set PREFIXES" "match_alternative q ?msg = Some e'"
    using prefixes_match_Some by blast
  from q(2) have "startswith ?msg (q @ [58])" by (simp add: match_alternative_Some)
  with sw have "p = q" using colon_free p q(1) by (intro startswith_colon_unique) auto
  with q(2) m have "e' = ?e" by simp
  moreover have "takeWhile is_space (w @ body) = w @ takeWhile is_space body"
    using w(2) by (simp add: takeWhile_append2)
  moreover have "drop (length p + 1 + length (w @ takeWhile is_space body)) ?msg
                   = dropWhile is_space body"
    by (simp add: dropWhile_eq_drop)
  ultimately show ?thesis
    unfolding strip_severity_def e' by (simp add: py_strip_dropWhile)
qed


lemma strip_severity_stripped:
  "strip_severity s = []
     \<or> (\<not> is_space (hd (strip_severity s)) \<and> \<not> is_space (last (strip_severity s)))"
  unfolding strip_severity_def by (rule py_strip_stripped)

lemma match_alternative_decompose:
  assumes "match_alternative p msg = Some e"
  shows "\<exists>w0 rest. is_space w0 \<and> msg = p @ [58] @ [w0] @ rest"
proof -
  from assms have sw: "take (length p + 1) msg = p @ [58]"
    and nx: "(case drop (length p + 1) msg of [] \<Rightarrow> False | w # _ \<Rightarrow> is_space w)"
    by (simp_all add: match_alternative_def startswith_def split: if_splits)
  from nx obtain w0 rest where d: "drop (length p + 1) msg = w0 # rest" and s: "is_space w0"
    by (cases "drop (length p + 1) msg") auto
  have "msg = take (length p + 1) msg @ drop (length p + 1) msg" by simp
  then have "msg = p @ [58] @ [w0] @ rest" unfolding sw d by simp
  with s show ?thesis by blast
qed

lemma strip_severity_no_prefix:
  assumes "\<forall>q \<in> set PREFIXES. \<forall>v rest.
             v \<noteq> [] \<and> (\<forall>c \<in> set v. is_space c) \<longrightarrow> msg \<noteq> q @ [58] @ v @ rest"
  shows "strip_severity msg = py_strip msg"
proof -
  have "prefixes_match PREFIXES msg = None"
  proof (rule ccontr)
    assume "prefixes_match PREFIXES msg \<noteq> None"
    then obtain e where "prefixes_match PREFIXES msg = Some e" by auto
    then obtain q where q: "q \<in> set PREFIXES" "match_alternative q msg = Some e"
      using prefixes_match_Some by blast
    from q(2) obtain w0 rest where "is_space w0" "msg = q @ [58] @ [w0] @ rest"
      using match_alternative_decompose by blast
    with assms q(1) show False by (metis empty_iff empty_set list.simps(3) set_ConsD)
  qed
  then show ?thesis by (simp add: strip_severity_def)
qed

text \<open>
  Claim C10, amended.  For a \<open>PGresult\<close>, and for a \<open>PGconn\<close> whose status is not
  \<open>OK\<close>, an empty message gives the fixed string "no details available", and a message
  that is not empty is decoded with the fallback encoding and the \<open>replace\<close> handler:
  what \<open>bytes.decode\<close> raises, \<open>error_message\<close> raises, and what it returns is returned
  with the severity stripped.  For a \<open>PGconn\<close> whose status is \<open>OK\<close>,
  \<open>pgconn_encoding\<close> comes first: what it raises is raised, whatever the message, and
  the encoding it returns takes the place of the fallback.  The stripped text has no
  whitespace at either end; when the decoded text starts with a severity prefix of the
  table, a colon and whitespace, it is the rest of the text, stripped; and when it starts
  with no such prefix, it is the whole text, stripped.
\<close>

theorem error_message_returns:
  "(let finish = (\<lambda>bmsg enc.
            if bmsg = [] then Inr (str_of ''no details available'')
            else (case decode bmsg enc ''replace'' of
                    Inl e \<Rightarrow> Inl e
                  | Inr decoded \<Rightarrow> Inr (strip_severity decoded)))
    in error_message decode penc (PGresult_obj res) fallback
         = finish (res_error_message res) fallback
     \<and> (conn_status conn \<noteq> OK \<longrightarrow>
           error_message decode penc (PGconn_obj conn) fallback
             = finish (conn_error_message conn) fallback)
     \<and> (conn_status conn = OK \<longrightarrow>
           error_message decode penc (PGconn_obj conn) fallback
             = (case penc conn of
                  Inl e \<Rightarrow> Inl e
                | Inr enc \<Rightarrow> finish (conn_error_message conn) enc)))
   \<and> (strip_severity msg = []
        \<or> (\<not> is_space (hd (strip_severity msg)) \<and> \<not> is_space (last (strip_severity msg))))
   \<and> (p \<in> set PREFIXES \<and> w \<noteq> [] \<and> (\<forall>c \<in> set w. is_space c) \<longrightarrow>
         strip_severity (p @ [58] @ w @ body) = py_strip body)
   \<and> ((\<forall>q \<in> set PREFIXES. \<forall>v rest.
          v \<noteq> [] \<and> (\<forall>c \<in> set v. is_space c) \<longrightarrow> msg \<noteq> q @ [58] @ v @ rest) \<longrightarrow>
         strip_severity msg = py_strip msg)"
proof -
  have a: "error_message decode penc (PGresult_obj res) fallback
         = (if res_error_message res = [] then Inr (str_of ''no details available'')
            else (case decode (res_error_message res) fallback ''replace'' of
                    Inl e \<Rightarrow> Inl e
                  | Inr decoded \<Rightarrow> Inr (strip_severity decoded)))"
    by (simp add: error_message_def)
  have b: "conn_status conn \<noteq> OK \<Longrightarrow>
         error_message decode penc (PGconn_obj conn) fallback
         = (if conn_error_message conn = [] then Inr (str_of ''no details available'')
            else (case decode (conn_error_message conn) fallback ''replace'' of
                    Inl e \<Rightarrow> Inl e
                  | Inr decoded \<Rightarrow> Inr (strip_severity decoded)))"
    by (simp add: error_message_def)
  have c: "conn_status conn = OK \<Longrightarrow>
         error_message decode penc (PGconn_obj conn) fallback
         = (case penc conn of
              Inl e \<Rightarrow> Inl e
            | Inr enc \<Rightarrow>
                if conn_error_message conn = [] then Inr (str_of ''no details available'')
                else (case decode (conn_error_message conn) enc ''replace'' of
                        Inl e \<Rightarrow> Inl e
                      | Inr decoded \<Rightarrow> Inr (strip_severity decoded)))"
    by (simp add: error_message_def split: sum.splits)
  have d: "p \<in> set PREFIXES \<and> w \<noteq> [] \<and> (\<forall>c \<in> set w. is_space c) \<Longrightarrow>
         strip_severity (p @ [58] @ w @ body) = py_strip body"
    by (intro strip_severity_prefix) simp_all
  show ?thesis
    unfolding Let_def
    using a b c d strip_severity_stripped [of msg] strip_severity_no_prefix [of msg]
    by blast
qed

lemma sample_prefixes:
  "str_of ''FATAL'' \<in> set PREFIXES"
  "str_of ''ERROR'' \<in> set PREFIXES"
  "[1054, 1064, 1048, 1041, 1050, 1040] \<in> set PREFIXES"
  "[214, 76, 220, 77, 67, 220, 76, 32, 40, 70, 65, 84, 65, 76, 41] \<in> set PREFIXES"
  by (simp_all add: PREFIXES_def prefixes_de_def prefixes_en_def prefixes_ru_def
        prefixes_tr_def str_of_def)

theorem error_message_returns_witness:
  "error_message sample_decode sample_pgconn_encoding
       (PGresult_obj \<lparr>res_error_message = ''FATAL:  caf'' @ [CHR 0xE9] @ '' ''\<rparr>) ''ascii''
     = Inr (str_of ''caf'' @ [65533])
   \<and> error_message sample_decode sample_pgconn_encoding
       (PGconn_obj \<lparr>conn_status = OK, conn_error_message = ''ERROR: lost'',
                    conn_client_encoding = ''LATIN1''\<rparr>) ''no-such-codec''
     = Inr (str_of ''lost'')
   \<and> error_message sample_decode sample_pgconn_encoding
       (PGconn_obj \<lparr>conn_status = BAD, conn_error_message = [],
                    conn_client_encoding = ''EUC_TW''\<rparr>) ''ascii''
     = Inr (str_of ''no details available'')
   \<and> strip_severity ([1054, 1064, 1048, 1041, 1050, 1040, 58, 32] @ str_of ''boom'')
     = str_of ''boom''
   \<and> strip_severity
       ([214, 76, 220, 77, 67, 220, 76, 32, 40, 70, 65, 84, 65, 76, 41, 58, 9]
        @ str_of ''boom'')
     = str_of ''boom''
   \<and> strip_severity (str_of '' no severity here '') = str_of ''no severity here''"
proof -
  let ?res = "\<lparr>res_error_message = ''FATAL:  caf'' @ [CHR 0xE9] @ '' ''\<rparr>"
  let ?ok = "\<lparr>conn_status = OK, conn_error_message = ''ERROR: lost'',
              conn_client_encoding = ''LATIN1''\<rparr>"
  let ?bad = "\<lparr>conn_status = BAD, conn_error_message = [],
               conn_client_encoding = ''EUC_TW''\<rparr>"
  let ?plain = "str_of '' no severity here ''"
  have dec: "sample_decode (''FATAL:  caf'' @ [CHR 0xE9] @ '' '') ''ascii'' ''replace''
               = Inr (str_of ''FATAL'' @ [58] @ [32, 32] @ (str_of ''caf'' @ [65533, 32]))"
    by (simp add: sample_decode_def str_of_def)
  have sp: "\<forall>c \<in> set [32, 32::nat]. is_space c" "\<forall>c \<in> set [32::nat]. is_space c"
           "\<forall>c \<in> set [9::nat]. is_space c"
    by (simp_all add: is_space_def)
  have st: "py_strip (str_of ''caf'' @ [65533, 32]) = str_of ''caf'' @ [65533]"
           "py_strip (str_of ''lost'') = str_of ''lost''"
           "py_strip (str_of ''boom'') = str_of ''boom''"
           "py_strip ?plain = str_of ''no severity here''"
    by (simp_all add: py_strip_def str_of_def is_space_def)
  have plain: "\<forall>q \<in> set PREFIXES. \<forall>v rest.
                 v \<noteq> [] \<and> (\<forall>c \<in> set v. is_space c) \<longrightarrow> ?plain \<noteq> q @ [58] @ v @ rest"
  proof (intro ballI allI impI notI)
    fix q v rest
    assume "?plain = q @ [58] @ v @ rest"
    then have "58 \<in> set ?plain" by simp
    then show False by (simp add: str_of_def)
  qed
  note t1 = error_message_returns
              [of sample_decode sample_pgconn_encoding ?res "''ascii''" ?bad ?plain
                  "str_of ''FATAL''" "[32, 32]" "str_of ''caf'' @ [65533, 32]"]
  have a: "error_message sample_decode sample_pgconn_encoding (PGresult_obj ?res) ''ascii''
             = Inr (str_of ''caf'' @ [65533])"
    using t1 dec sp st sample_prefixes(1) by (simp add: Let_def)
  have c: "error_message sample_decode sample_pgconn_encoding (PGconn_obj ?bad) ''ascii''
             = Inr (str_of ''no details available'')"
    using t1 by (simp add: Let_def)
  have f: "strip_severity ?plain = str_of ''no severity here''"
    using t1 plain st by simp
  note t2 = error_message_returns
              [of sample_decode sample_pgconn_encoding ?res "''no-such-codec''" ?ok ?plain
                  "[1054, 1064, 1048, 1041, 1050, 1040]" "[32]" "str_of ''boom''"]
  have d: "strip_severity ([1054, 1064, 1048, 1041, 1050, 1040, 58, 32] @ str_of ''boom'')
             = str_of ''boom''"
    using t2 sp st sample_prefixes(3) by simp
  note t4 = error_message_returns
              [of sample_decode sample_pgconn_encoding ?res "''no-such-codec''" ?ok ?plain
                  "str_of ''ERROR''" "[32]" "str_of ''lost''"]
  have lost: "strip_severity (str_of ''ERROR'' @ [58] @ [32] @ str_of ''lost'') = str_of ''lost''"
    using t4 sp st sample_prefixes(2) by simp
  have b: "error_message sample_decode sample_pgconn_encoding (PGconn_obj ?ok) ''no-such-codec''
             = Inr (str_of ''lost'')"
    using t4 lost by (simp add: Let_def sample_pgconn_encoding_def sample_decode_def str_of_def)
  note t3 = error_message_returns
              [of sample_decode sample_pgconn_encoding ?res "''ascii''" ?bad ?plain
                  "[214, 76, 220, 77, 67, 220, 76, 32, 40, 70, 65, 84, 65, 76, 41]" "[9]"
                  "str_of ''boom''"]
  have e: "strip_severity
             ([214, 76, 220, 77, 67, 220, 76, 32, 40, 70, 65, 84, 65, 76, 41, 58, 9]
              @ str_of ''boom'') = str_of ''boom''"
    using t3 sp st sample_prefixes(4) by simp
  from a b c d e f show ?thesis by simp
qed

text \<open>
  Claim C10, as stated, has \<open>error_message\<close> return a string for every object and
  every fallback encoding.  Decoding a message that is not empty with a fallback that is
  no codec raises \<open>LookupError\<close>, which the \<open>replace\<close> handler does not cover; and for
  a \<open>PGconn\<close> whose status is \<open>OK\<close> and whose encoding has no Python codec,
  \<open>pgconn_encoding\<close> raises before the message is looked at, empty or not.
\<close>

theorem error_message_unknown_encoding_counterexample:
  "error_message sample_decode sample_pgconn_encoding
       (PGresult_obj \<lparr>res_error_message = ''FATAL:  boom''\<rparr>) ''no-such-codec''
     = Inl (LookupError ''unknown encoding: no-such-codec'')
   \<and> error_message sample_decode sample_pgconn_encoding
       (PGconn_obj \<lparr>conn_status = OK, conn_error_message = [],
                    conn_client_encoding = ''EUC_TW''\<rparr>) ''ascii''
     = Inl (NotSupportedError ''codec not available in Python: EUC_TW'')"
  by (simp add: error_message_def sample_decode_def sample_pgconn_encoding_def)

section \<open>Properties of the connection model\<close>

lemma apply_op_BAD: "status (fst st) = BAD \<Longrightarrow> status (fst (apply_op op st)) = BAD"
proof (cases st)
  case (Pair c env)
  assume "status (fst st) = BAD"
  with Pair have b: "status c = BAD" by simp
  show ?thesis unfolding Pair
  proof (cases op)
    case Close
    with b show "status (fst (apply_op op (c, env))) = BAD" by (simp add: close_def)
  next
    case (Commit r)
    with b show "status (fst (apply_op op (c, env))) = BAD"
      by (simp add: commit_def end_transaction_def)
  next
    case (Rollback r)
    with b show "status (fst (apply_op op (c, env))) = BAD"
      by (simp add: rollback_def end_transaction_def)
  next
    case (Execute r)
    with b show "status (fst (apply_op op (c, env))) = BAD" by (simp add: execute_def)
  next
    case (SetAutocommit v)
    with b show "status (fst (apply_op op (c, env))) = BAD" by (simp add: set_autocommit_def)
  next
    case (AddNoticeHandler h)
    with b show "status (fst (apply_op op (c, env))) = BAD" by (simp add: add_notice_handler_def)
  next
    case (RemoveNoticeHandler i)
    with b show "status (fst (apply_op op (c, env))) = BAD"
      by (simp add: remove_notice_handler_def split: option.splits)
  qed
qed

lemma run_ops_BAD: "status (fst st) = BAD \<Longrightarrow> status (fst (run_ops ops st)) = BAD"
  unfolding run_ops_def
  by (induction ops arbitrary: st) (simp_all add: apply_op_BAD)











lemma execute_autocommit:
  "autocommit c \<Longrightarrow> transaction_status c \<noteq> IN_TRANSACTION \<Longrightarrow>
     transaction_status (fst (snd (execute c env reply))) \<noteq> IN_TRANSACTION
     \<and> autocommit (fst (snd (execute c env reply)))"
  by (simp add: execute_def run_command_def Let_def split: server_result.splits)

text \<open>
  Claim C5.  close never fails and is idempotent: the first call leaves the status BAD
  and the connection closed, a second call changes nothing and succeeds as well, and
  whatever operations follow, the status stays BAD.
\<close>

theorem close_idempotent:
  "\<exists>c'. close c env = (Inr (), c', env)
        \<and> status c' = BAD \<and> closed c'
        \<and> close c' env' = (Inr (), c', env')
        \<and> status (fst (run_ops ops (c', env'))) = BAD"
proof -
  let ?c = "fst (snd (close c env))"
  have 1: "close c env = (Inr (), ?c, env)" by (simp add: close_def)
  have 2: "status ?c = BAD" by (simp add: close_def)
  then have 3: "closed ?c" by (simp add: closed_def)
  have 4: "close ?c env' = (Inr (), ?c, env')" using 2 by (simp add: close_def)
  have 5: "status (fst (run_ops ops (?c, env'))) = BAD" using 2 by (intro run_ops_BAD) simp
  from 1 2 3 4 5 show ?thesis by blast
qed

text \<open>
  Claim C4.  Setting autocommit to true fails with ProgrammingError, leaving the
  connection as it was, unless the status is OK and the transaction status is IDLE, where
  it succeeds; after close the transaction status of a connection that was OK is UNKNOWN
  and the setter fails; and while autocommit is true, executing a statement does not take
  the transaction status into IN_TRANSACTION.
\<close>

theorem set_autocommit_guard:
  "(\<not> (status c = OK \<and> transaction_status c = IDLE) \<longrightarrow>
       set_autocommit c True = (Inl ProgrammingError, c))
   \<and> (status c = OK \<and> transaction_status c = IDLE \<longrightarrow>
       set_autocommit c True = (Inr (), c\<lparr>autocommit := True\<rparr>))
   \<and> (status c = OK \<longrightarrow> transaction_status (fst (snd (close c env))) = UNKNOWN)
   \<and> set_autocommit (fst (snd (close c env))) True
       = (Inl ProgrammingError, fst (snd (close c env)))
   \<and> (autocommit c \<and> transaction_status c \<noteq> IN_TRANSACTION \<longrightarrow>
       transaction_status (fst (snd (execute c env reply))) \<noteq> IN_TRANSACTION
       \<and> autocommit (fst (snd (execute c env reply))))"
proof (intro conjI impI)
  assume "\<not> (status c = OK \<and> transaction_status c = IDLE)"
  then show "set_autocommit c True = (Inl ProgrammingError, c)"
    by (auto simp: set_autocommit_def)
next
  assume "status c = OK \<and> transaction_status c = IDLE"
  then show "set_autocommit c True = (Inr (), c\<lparr>autocommit := True\<rparr>)"
    by (simp add: set_autocommit_def)
next
  assume "status c = OK"
  then show "transaction_status (fst (snd (close c env))) = UNKNOWN"
    by (simp add: close_def)
next
  have "status (fst (snd (close c env))) = BAD" by (simp add: close_def)
  then show "set_autocommit (fst (snd (close c env))) True
               = (Inl ProgrammingError, fst (snd (close c env)))"
    by (simp add: set_autocommit_def)
next
  assume a: "autocommit c \<and> transaction_status c \<noteq> IN_TRANSACTION"
  then show "transaction_status (fst (snd (execute c env reply))) \<noteq> IN_TRANSACTION"
    using execute_autocommit [of c env reply] by simp
  from a show "autocommit (fst (snd (execute c env reply)))"
    using execute_autocommit [of c env reply] by simp
qed

theorem set_autocommit_guard_witness:
  "set_autocommit (test_conn\<lparr>transaction_status := IN_TRANSACTION\<rparr>) True
     = (Inl ProgrammingError, test_conn\<lparr>transaction_status := IN_TRANSACTION\<rparr>)
   \<and> set_autocommit test_conn True = (Inr (), test_conn\<lparr>autocommit := True\<rparr>)
   \<and> transaction_status (fst (snd (close test_conn test_env))) = UNKNOWN
   \<and> transaction_status
        (fst (snd (execute (test_conn\<lparr>autocommit := True\<rparr>) test_env
                     \<lparr>reply_result = Accepted, reply_notices = []\<rparr>))) = IDLE"
proof -
  have a: "set_autocommit (test_conn\<lparr>transaction_status := IN_TRANSACTION\<rparr>) True
     = (Inl ProgrammingError, test_conn\<lparr>transaction_status := IN_TRANSACTION\<rparr>)"
    using set_autocommit_guard [of "test_conn\<lparr>transaction_status := IN_TRANSACTION\<rparr>"]
    by (simp add: test_conn_def)
  have b: "set_autocommit test_conn True = (Inr (), test_conn\<lparr>autocommit := True\<rparr>)
           \<and> transaction_status (fst (snd (close test_conn test_env))) = UNKNOWN"
    using set_autocommit_guard [of test_conn test_env] by (simp add: test_conn_def)
  have "transaction_status
        (fst (snd (execute (test_conn\<lparr>autocommit := True\<rparr>) test_env
                     \<lparr>reply_result = Accepted, reply_notices = []\<rparr>))) \<noteq> IN_TRANSACTION"
    using set_autocommit_guard [of "test_conn\<lparr>autocommit := True\<rparr>" test_env
            "\<lparr>reply_result = Accepted, reply_notices = []\<rparr>"]
    by (simp add: test_conn_def)
  then have c: "transaction_status
        (fst (snd (execute (test_conn\<lparr>autocommit := True\<rparr>) test_env
                     \<lparr>reply_result = Accepted, reply_notices = []\<rparr>))) = IDLE"
    by (simp add: execute_def run_command_def test_conn_def)
  from a b c show ?thesis by simp
qed



text \<open>
  Claim C6.  When the connection is lost while an operation is in flight (execute, commit
  or rollback, on a connection that was OK), the operation fails with OperationalError and
  leaves the status BAD and the transaction status UNKNOWN; whatever operations follow,
  the status stays BAD, and every execute, commit or rollback that comes after, as those
  of the callers queued behind the lost command do, fails with OperationalError.
\<close>

theorem connection_loss_is_final:
  "status c = OK \<and> reply_result reply = ConnectionLost \<longrightarrow>
     fst (execute c env reply) = Inl OperationalError
     \<and> status (fst (snd (execute c env reply))) = BAD
     \<and> transaction_status (fst (snd (execute c env reply))) = UNKNOWN
     \<and> fst (commit c env reply) = Inl OperationalError
     \<and> status (fst (snd (commit c env reply))) = BAD
     \<and> fst (rollback c env reply) = Inl OperationalError
     \<and> status (fst (snd (rollback c env reply))) = BAD
     \<and> (let st = run_ops ops (snd (execute c env reply))
        in status (fst st) = BAD
           \<and> fst (execute (fst st) (snd st) later) = Inl OperationalError
           \<and> fst (commit (fst st) (snd st) later) = Inl OperationalError
           \<and> fst (rollback (fst st) (snd st) later) = Inl OperationalError)"
proof
  assume h: "status c = OK \<and> reply_result reply = ConnectionLost"
  then have 1: "fst (execute c env reply) = Inl OperationalError"
    and 2: "status (fst (snd (execute c env reply))) = BAD"
    and 3: "transaction_status (fst (snd (execute c env reply))) = UNKNOWN"
    by (simp_all add: execute_def run_command_def Let_def)
  from h have 4: "fst (commit c env reply) = Inl OperationalError"
    and 5: "status (fst (snd (commit c env reply))) = BAD"
    and 6: "fst (rollback c env reply) = Inl OperationalError"
    and 7: "status (fst (snd (rollback c env reply))) = BAD"
    by (simp_all add: commit_def rollback_def end_transaction_def run_command_def Let_def)
  let ?st = "run_ops ops (snd (execute c env reply))"
  have b: "status (fst ?st) = BAD" using 2 by (intro run_ops_BAD) simp
  then have 8: "fst (execute (fst ?st) (snd ?st) later) = Inl OperationalError"
    and 9: "fst (commit (fst ?st) (snd ?st) later) = Inl OperationalError"
    and 10: "fst (rollback (fst ?st) (snd ?st) later) = Inl OperationalError"
    by (simp_all add: execute_def commit_def rollback_def end_transaction_def)
  from 1 2 3 4 5 6 7 b 8 9 10
  show "fst (execute c env reply) = Inl OperationalError
     \<and> status (fst (snd (execute c env reply))) = BAD
     \<and> transaction_status (fst (snd (execute c env reply))) = UNKNOWN
     \<and> fst (commit c env reply) = Inl OperationalError
     \<and> status (fst (snd (commit c env reply))) = BAD
     \<and> fst (rollback c env reply) = Inl OperationalError
     \<and> status (fst (snd (rollback c env reply))) = BAD
     \<and> (let st = run_ops ops (snd (execute c env reply))
        in status (fst st) = BAD
           \<and> fst (execute (fst st) (snd st) later) = Inl OperationalError
           \<and> fst (commit (fst st) (snd st) later) = Inl OperationalError
           \<and> fst (rollback (fst st) (snd st) later) = Inl OperationalError)"
    by (simp add: Let_def)
qed

theorem connection_loss_is_final_witness:
  "status test_conn = OK
   \<and> fst (execute test_conn test_env \<lparr>reply_result = ConnectionLost, reply_notices = []\<rparr>)
       = Inl OperationalError
   \<and> status (fst (snd (execute test_conn test_env
                          \<lparr>reply_result = ConnectionLost, reply_notices = []\<rparr>))) = BAD
   \<and> fst (execute
           (fst (run_ops [Commit \<lparr>reply_result = Accepted, reply_notices = []\<rparr>,
                          SetAutocommit True]
                   (snd (execute test_conn test_env
                           \<lparr>reply_result = ConnectionLost, reply_notices = []\<rparr>))))
           (snd (run_ops [Commit \<lparr>reply_result = Accepted, reply_notices = []\<rparr>,
                          SetAutocommit True]
                   (snd (execute test_conn test_env
                           \<lparr>reply_result = ConnectionLost, reply_notices = []\<rparr>))))
           \<lparr>reply_result = Accepted, reply_notices = []\<rparr>)
       = Inl OperationalError"
proof -
  have ok: "status test_conn = OK" by (simp add: test_conn_def)
  show ?thesis
    using connection_loss_is_final
            [of test_conn "\<lparr>reply_result = ConnectionLost, reply_notices = []\<rparr>" test_env
                "[Commit \<lparr>reply_result = Accepted, reply_notices = []\<rparr>, SetAutocommit True]"
                "\<lparr>reply_result = Accepted, reply_notices = []\<rparr>"] ok
    by (simp add: Let_def)
qed

end
